theory Spec2Isabelle
  imports Complex_Main "HOL-Library.Sublist"
begin

section \<open>Python numbers\<close>

text \<open>
  The values that flow through \<^verbatim>\<open>signals/base_signal.py\<close> are Python numbers: \<^verbatim>\<open>int\<close>
  (unbounded), \<^verbatim>\<open>bool\<close> (a subclass of \<^verbatim>\<open>int\<close>) and \<^verbatim>\<open>float\<close>. A float is modelled
  by the extended real it denotes: a finite value, \<open>+inf\<close> (\<^verbatim>\<open>numpy.PINF\<close>), \<open>-inf\<close>
  (\<^verbatim>\<open>numpy.NINF\<close>) or not-a-number. The arithmetic operators are exact on finite floats
  in the model: their rounding to binary64, overflow of a float result to an infinity,
  and the sign of zero are not modelled. What Python raises is modelled: dividing by
  zero, and converting an \<^verbatim>\<open>int\<close> that does not fit a float. Timestamps, window bounds
  and values are Python's own numbers; numpy scalars are not modelled.
\<close>

datatype pyfloat = Fin real | PInf | NInf | NaN

datatype pynum = PyInt int | PyBool bool | PyFloat pyfloat

datatype pyerr =
    TypeError string
  | ZeroDivisionError
  | OverflowError
  | NotImplementedError

definition NINF :: pynum where
  "NINF = PyFloat NInf"

definition PINF :: pynum where
  "PINF = PyFloat PInf"

text \<open>
  \<^verbatim>\<open>float(n)\<close> raises \<^verbatim>\<open>OverflowError\<close> exactly when \<open>n\<close> rounds to a magnitude of
  \<open>2 ^ 1024\<close> or more, that is from the midpoint between the largest binary64 value
  \<open>2 ^ 1024 - 2 ^ 971\<close> and \<open>2 ^ 1024\<close> on.
\<close>

definition float_limit :: int where
  "float_limit = 2 ^ 1024 - 2 ^ 970"

fun as_int :: "pynum \<Rightarrow> int option" where
  "as_int (PyInt n) = Some n"
| "as_int (PyBool b) = Some (if b then 1 else 0)"
| "as_int (PyFloat f) = None"

fun to_float :: "pynum \<Rightarrow> pyerr + pyfloat" where
  "to_float (PyFloat f) = Inr f"
| "to_float (PyBool b) = Inr (Fin (if b then 1 else 0))"
| "to_float (PyInt n) =
     (if float_limit \<le> \<bar>n\<bar> then Inl OverflowError else Inr (Fin (of_int n)))"

fun float_neg :: "pyfloat \<Rightarrow> pyfloat" where
  "float_neg (Fin x) = Fin (- x)"
| "float_neg PInf = NInf"
| "float_neg NInf = PInf"
| "float_neg NaN = NaN"

fun float_add :: "pyfloat \<Rightarrow> pyfloat \<Rightarrow> pyfloat" where
  "float_add NaN b = NaN"
| "float_add a NaN = NaN"
| "float_add (Fin x) (Fin y) = Fin (x + y)"
| "float_add PInf NInf = NaN"
| "float_add NInf PInf = NaN"
| "float_add PInf b = PInf"
| "float_add NInf b = NInf"
| "float_add (Fin x) b = b"

definition float_sub :: "pyfloat \<Rightarrow> pyfloat \<Rightarrow> pyfloat" where
  "float_sub a b = float_add a (float_neg b)"

fun float_negative :: "pyfloat \<Rightarrow> bool" where
  "float_negative (Fin x) = (x < 0)"
| "float_negative NInf = True"
| "float_negative PInf = False"
| "float_negative NaN = False"

fun float_mul :: "pyfloat \<Rightarrow> pyfloat \<Rightarrow> pyfloat" where
  "float_mul NaN b = NaN"
| "float_mul a NaN = NaN"
| "float_mul (Fin x) (Fin y) = Fin (x * y)"
| "float_mul a b =
     (if a = Fin 0 \<or> b = Fin 0 then NaN
      else if float_negative a = float_negative b then PInf else NInf)"

text \<open>The quotient of two floats whose divisor is not zero (Python raises before).\<close>

fun float_div :: "pyfloat \<Rightarrow> pyfloat \<Rightarrow> pyfloat" where
  "float_div NaN b = NaN"
| "float_div a NaN = NaN"
| "float_div (Fin x) (Fin y) = Fin (x / y)"
| "float_div (Fin x) b = Fin 0"
| "float_div a (Fin y) = (if float_negative a = (y < 0) then PInf else NInf)"
| "float_div a b = NaN"

fun float_le :: "pyfloat \<Rightarrow> pyfloat \<Rightarrow> bool" where
  "float_le NaN b = False"
| "float_le a NaN = False"
| "float_le (Fin x) (Fin y) = (x \<le> y)"
| "float_le NInf b = True"
| "float_le a PInf = True"
| "float_le a b = False"

fun float_lt :: "pyfloat \<Rightarrow> pyfloat \<Rightarrow> bool" where
  "float_lt NaN b = False"
| "float_lt a NaN = False"
| "float_lt (Fin x) (Fin y) = (x < y)"
| "float_lt PInf b = False"
| "float_lt a NInf = False"
| "float_lt a b = True"

text \<open>
  Python compares an \<^verbatim>\<open>int\<close> with a \<^verbatim>\<open>float\<close> by value, without converting the
  \<^verbatim>\<open>int\<close>: no comparison of two numbers raises.
\<close>

fun exact :: "pynum \<Rightarrow> pyfloat" where
  "exact (PyInt n) = Fin (of_int n)"
| "exact (PyBool b) = Fin (if b then 1 else 0)"
| "exact (PyFloat f) = f"

definition py_le :: "pynum \<Rightarrow> pynum \<Rightarrow> bool" where
  "py_le a b = float_le (exact a) (exact b)"

definition py_lt :: "pynum \<Rightarrow> pynum \<Rightarrow> bool" where
  "py_lt a b = float_lt (exact a) (exact b)"

definition py_eq :: "pynum \<Rightarrow> pynum \<Rightarrow> bool" where
  "py_eq a b = (exact a \<noteq> NaN \<and> exact a = exact b)"

text \<open>
  The binary operators: two \<^verbatim>\<open>int\<close>s (or \<^verbatim>\<open>bool\<close>s) give an \<^verbatim>\<open>int\<close>; otherwise both
  operands are converted to \<^verbatim>\<open>float\<close>, the left one first.
\<close>

definition float_binop ::
  "(pyfloat \<Rightarrow> pyfloat \<Rightarrow> pyfloat) \<Rightarrow> pynum \<Rightarrow> pynum \<Rightarrow> pyerr + pynum" where
  "float_binop f a b =
     (case to_float a of
        Inl e \<Rightarrow> Inl e
      | Inr x \<Rightarrow>
          (case to_float b of
             Inl e \<Rightarrow> Inl e
           | Inr y \<Rightarrow> Inr (PyFloat (f x y))))"

definition py_add :: "pynum \<Rightarrow> pynum \<Rightarrow> pyerr + pynum" where
  "py_add a b =
     (case (as_int a, as_int b) of
        (Some m, Some n) \<Rightarrow> Inr (PyInt (m + n))
      | _ \<Rightarrow> float_binop float_add a b)"

definition py_sub :: "pynum \<Rightarrow> pynum \<Rightarrow> pyerr + pynum" where
  "py_sub a b =
     (case (as_int a, as_int b) of
        (Some m, Some n) \<Rightarrow> Inr (PyInt (m - n))
      | _ \<Rightarrow> float_binop float_sub a b)"

definition py_mul :: "pynum \<Rightarrow> pynum \<Rightarrow> pyerr + pynum" where
  "py_mul a b =
     (case (as_int a, as_int b) of
        (Some m, Some n) \<Rightarrow> Inr (PyInt (m * n))
      | _ \<Rightarrow> float_binop float_mul a b)"

text \<open>
  True division: of two \<^verbatim>\<open>int\<close>s it is the quotient as a float
  (\<^verbatim>\<open>OverflowError\<close> when it does not fit); a zero divisor raises
  \<^verbatim>\<open>ZeroDivisionError\<close>, for \<^verbatim>\<open>int\<close> and for \<^verbatim>\<open>float\<close>.
\<close>

definition py_truediv :: "pynum \<Rightarrow> pynum \<Rightarrow> pyerr + pynum" where
  "py_truediv a b =
     (case (as_int a, as_int b) of
        (Some m, Some n) \<Rightarrow>
          (if n = 0 then Inl ZeroDivisionError
           else if of_int float_limit \<le> \<bar>of_int m / of_int n :: real\<bar> then Inl OverflowError
           else Inr (PyFloat (Fin (of_int m / of_int n))))
      | _ \<Rightarrow>
          (case to_float a of
             Inl e \<Rightarrow> Inl e
           | Inr x \<Rightarrow>
               (case to_float b of
                  Inl e \<Rightarrow> Inl e
                | Inr y \<Rightarrow>
                    (if y = Fin 0 then Inl ZeroDivisionError
                     else Inr (PyFloat (float_div x y))))))"

section \<open>Signals\<close>

text \<open>
  The classes of \<^verbatim>\<open>base_signal.py\<close> as one datatype. \<open>BaseSignal\<close> is a bare instance
  of the base class; \<open>TwoSidedOperation\<close> and its four subclasses hold the dataclass
  fields \<open>lhs\<close> and \<open>rhs\<close>, which the dataclass does not check: they hold any operand
  (\<^verbatim>\<open>Union[BaseSignal | float | int]\<close>). \<open>Signal cls t_start t_end local\<close> is an
  instance of a concrete subclass of the abstract class \<^verbatim>\<open>Signal\<close>: \<open>cls\<close> is the
  qualified name of the subclass, \<open>local\<close> its \<^verbatim>\<open>_signal\<close> method as a function of the
  local time. \<open>Const t_start t_end value\<close> lists the fields in the order the dataclass
  gives them: the inherited \<open>t_start\<close> and \<open>t_end\<close> first (a redeclared field keeps its
  place), then \<open>value\<close>. Window bounds, values and timestamps are numbers, as annotated.

  An operand of an operator is a signal, a number, or an object of some other class
  (\<open>Obj\<close> with the name of its class: a \<^verbatim>\<open>str\<close>, \<^verbatim>\<open>None\<close>, a list), which is neither a
  number nor callable.
\<close>

datatype signal =
    BaseSignal
  | TwoSidedOperation pyobj pyobj
  | SumOfSignals pyobj pyobj
  | DifferenceOfSignals pyobj pyobj
  | ProductOfSignals pyobj pyobj
  | DivisionOfSignals pyobj pyobj
  | Signal string pynum pynum "pynum \<Rightarrow> pyerr + pynum"
  | Const pynum pynum pynum
and pyobj =
    Sig signal
  | Num pynum
  | Obj string

subsection \<open>Types as the error messages print them\<close>

text \<open>The module, as imported from the \<^verbatim>\<open>src\<close> directory of the repository.\<close>

definition this_module :: string where
  "this_module = ''signals.base_signal''"

fun class_name :: "signal \<Rightarrow> string" where
  "class_name BaseSignal = this_module @ ''.BaseSignal''"
| "class_name (TwoSidedOperation l r) = this_module @ ''.TwoSidedOperation''"
| "class_name (SumOfSignals l r) = this_module @ ''.SumOfSignals''"
| "class_name (DifferenceOfSignals l r) = this_module @ ''.DifferenceOfSignals''"
| "class_name (ProductOfSignals l r) = this_module @ ''.ProductOfSignals''"
| "class_name (DivisionOfSignals l r) = this_module @ ''.DivisionOfSignals''"
| "class_name (Signal cls ts te f) = cls"
| "class_name (Const ts te v) = this_module @ ''.Const''"

fun type_name :: "pyobj \<Rightarrow> string" where
  "type_name (Sig s) = class_name s"
| "type_name (Num (PyInt n)) = ''int''"
| "type_name (Num (PyBool b)) = ''bool''"
| "type_name (Num (PyFloat f)) = ''float''"
| "type_name (Obj cls) = cls"

text \<open>\<^verbatim>\<open>str(type(x))\<close>, as an f-string formats \<^verbatim>\<open>{type(x)}\<close>.\<close>

definition type_str :: "pyobj \<Rightarrow> string" where
  "type_str x = ''<class '' @ [CHR 0x27] @ type_name x @ [CHR 0x27] @ ''>''"

subsection \<open>Evaluation at one timestamp\<close>

text \<open>
  \<^verbatim>\<open>Signal.__call__\<close>: the half-open window test \<^verbatim>\<open>t_start <= t < t_end\<close>, then the
  local rule at \<^verbatim>\<open>t - t_start\<close>, else the float \<^verbatim>\<open>0.0\<close>.
\<close>

definition Signal_call ::
  "pynum \<Rightarrow> pynum \<Rightarrow> (pynum \<Rightarrow> pyerr + pynum) \<Rightarrow> pynum \<Rightarrow> pyerr + pynum" where
  "Signal_call t_start t_end local t =
     (if py_le t_start t \<and> py_lt t t_end then
        (case py_sub t t_start of Inl e \<Rightarrow> Inl e | Inr u \<Rightarrow> local u)
      else Inr (PyFloat (Fin 0)))"

text \<open>
  \<^verbatim>\<open>self.lhs(t) op self.rhs(t)\<close>: the left operand is evaluated first, then the right
  one, then the operator; the first exception raised propagates.
\<close>

definition two_sided ::
  "(pynum \<Rightarrow> pynum \<Rightarrow> pyerr + pynum) \<Rightarrow> pyerr + pynum \<Rightarrow> pyerr + pynum \<Rightarrow> pyerr + pynum" where
  "two_sided f l r =
     (case l of
        Inl e \<Rightarrow> Inl e
      | Inr a \<Rightarrow> (case r of Inl e \<Rightarrow> Inl e | Inr b \<Rightarrow> f a b))"

fun call :: "signal \<Rightarrow> pynum \<Rightarrow> pyerr + pynum"
  and call_obj :: "pyobj \<Rightarrow> pynum \<Rightarrow> pyerr + pynum" where
  "call BaseSignal t = Inl NotImplementedError"
| "call (TwoSidedOperation l r) t = Inl NotImplementedError"
| "call (SumOfSignals l r) t = two_sided py_add (call_obj l t) (call_obj r t)"
| "call (DifferenceOfSignals l r) t = two_sided py_sub (call_obj l t) (call_obj r t)"
| "call (ProductOfSignals l r) t = two_sided py_mul (call_obj l t) (call_obj r t)"
| "call (DivisionOfSignals l r) t = two_sided py_truediv (call_obj l t) (call_obj r t)"
| "call (Signal cls t_start t_end local) t = Signal_call t_start t_end local t"
| "call (Const t_start t_end v) t = Signal_call t_start t_end (\<lambda>u. Inr v) t"
| "call_obj (Sig s) t = call s t"
| "call_obj x t =
     Inl (TypeError ([CHR 0x27] @ type_name x @ [CHR 0x27] @ '' object is not callable''))"

subsection \<open>Batch evaluation\<close>

text \<open>
  The list comprehension of \<^verbatim>\<open>eval_on\<close> calls the signal on each timestamp in order; the
  first exception ends it.
\<close>

fun call_each :: "signal \<Rightarrow> pynum list \<Rightarrow> pyerr + pynum list" where
  "call_each s [] = Inr []"
| "call_each s (t # ts) =
     (case call s t of
        Inl e \<Rightarrow> Inl e
      | Inr v \<Rightarrow> (case call_each s ts of Inl e \<Rightarrow> Inl e | Inr vs \<Rightarrow> Inr (v # vs)))"

text \<open>
  \<^verbatim>\<open>np.array\<close> of a list of Python numbers (numpy 1.x, where \<^verbatim>\<open>NINF\<close> and \<^verbatim>\<open>PINF\<close>
  exist, with a 64-bit C \<^verbatim>\<open>long\<close>). Each element is given a type: \<^verbatim>\<open>bool\<close> for a
  \<^verbatim>\<open>bool\<close>, \<^verbatim>\<open>float64\<close> for a \<^verbatim>\<open>float\<close>, and for an \<^verbatim>\<open>int\<close> \<^verbatim>\<open>int64\<close> if it fits, else
  \<^verbatim>\<open>uint64\<close> if it fits, else \<^verbatim>\<open>object\<close>. The types are promoted to one element type
  from the left; an empty list gives \<^verbatim>\<open>float64\<close>. Then every element is stored in that
  type.
\<close>

datatype np_dtype = NpBool | NpInt64 | NpUInt64 | NpFloat64 | NpObject

fun discover :: "pynum \<Rightarrow> np_dtype" where
  "discover (PyBool b) = NpBool"
| "discover (PyFloat f) = NpFloat64"
| "discover (PyInt n) =
     (if - (2 ^ 63) \<le> n \<and> n < 2 ^ 63 then NpInt64
      else if 0 \<le> n \<and> n < 2 ^ 64 then NpUInt64
      else NpObject)"

fun promote_types :: "np_dtype \<Rightarrow> np_dtype \<Rightarrow> np_dtype" where
  "promote_types NpObject b = NpObject"
| "promote_types a NpObject = NpObject"
| "promote_types NpBool b = b"
| "promote_types a NpBool = a"
| "promote_types NpInt64 NpInt64 = NpInt64"
| "promote_types NpUInt64 NpUInt64 = NpUInt64"
| "promote_types a b = NpFloat64"

definition result_dtype :: "pynum list \<Rightarrow> np_dtype" where
  "result_dtype xs =
     (case xs of
        [] \<Rightarrow> NpFloat64
      | x # ys \<Rightarrow> foldl (\<lambda>d y. promote_types (discover y) d) (discover x) ys)"

text \<open>
  Storing an \<^verbatim>\<open>int\<close> in a \<^verbatim>\<open>float64\<close> array rounds it to 53 significant bits, ties to
  the even neighbour: \<open>shift53\<close> is the number of low bits that do not fit. (Here the
  rounding is modelled: what the array holds depends on it.)
\<close>

function shift53 :: "nat \<Rightarrow> nat" where
  "shift53 m = (if m < 2 ^ 53 then 0 else Suc (shift53 (m div 2)))"
  by pat_completeness auto
termination
  by (relation "measure id") auto

declare shift53.simps [simp del]

definition round_half_even :: "int \<Rightarrow> int \<Rightarrow> int" where
  "round_half_even m d =
     (let q = m div d; r = m mod d
      in if 2 * r < d then q
         else if d < 2 * r then q + 1
         else if even q then q else q + 1)"

definition int_to_float64 :: "int \<Rightarrow> real" where
  "int_to_float64 n =
     (let e = shift53 (nat \<bar>n\<bar>)
      in of_int (sgn n * round_half_even \<bar>n\<bar> (2 ^ e) * 2 ^ e))"

text \<open>
  The element as stored: a \<^verbatim>\<open>bool\<close> becomes 1 or 0 in a numeric array, an \<^verbatim>\<open>int\<close> is
  rounded in a \<^verbatim>\<open>float64\<close> array, every other element keeps its value (an \<^verbatim>\<open>object\<close>
  array holds the Python numbers themselves). The numpy scalars the array holds are
  written as the numbers they denote.
\<close>

fun cast :: "np_dtype \<Rightarrow> pynum \<Rightarrow> pynum" where
  "cast NpFloat64 (PyInt n) = PyFloat (Fin (int_to_float64 n))"
| "cast NpFloat64 (PyBool b) = PyFloat (Fin (if b then 1 else 0))"
| "cast NpInt64 (PyBool b) = PyInt (if b then 1 else 0)"
| "cast NpUInt64 (PyBool b) = PyInt (if b then 1 else 0)"
| "cast d x = x"

datatype ndarray = NdArray (dtype: np_dtype) (items: "pynum list")

definition np_array :: "pynum list \<Rightarrow> ndarray" where
  "np_array xs = NdArray (result_dtype xs) (map (cast (result_dtype xs)) xs)"

text \<open>\<^verbatim>\<open>eval_on\<close>: the array of the list of the single calls.\<close>

definition eval_on :: "signal \<Rightarrow> pynum list \<Rightarrow> pyerr + ndarray" where
  "eval_on s ts = (case call_each s ts of Inl e \<Rightarrow> Inl e | Inr rs \<Rightarrow> Inr (np_array rs))"

subsection \<open>The constructor of the constant leaf\<close>

text \<open>
  The \<^verbatim>\<open>__init__\<close> that \<^verbatim>\<open>@dataclass\<close> generates for \<^verbatim>\<open>Const\<close> takes the fields in their
  order, each with its default: \<^verbatim>\<open>t_start = NINF\<close> (redeclared by \<^verbatim>\<open>Const\<close>),
  \<^verbatim>\<open>t_end = PINF\<close>, \<^verbatim>\<open>value = 0.0\<close>. Positional arguments bind to the fields from the
  left, then the keywords bind by name; a keyword that names no field or an already
  bound one, and more positional arguments than fields, raise \<^verbatim>\<open>TypeError\<close> (with the
  message abridged here).
\<close>

definition Const_fields :: "string list" where
  "Const_fields = [''t_start'', ''t_end'', ''value'']"

fun bind_keywords ::
  "(string \<times> pynum) list \<Rightarrow> (string \<times> pynum) list \<Rightarrow> pyerr + (string \<times> pynum) list" where
  "bind_keywords bound [] = Inr bound"
| "bind_keywords bound ((k, v) # kws) =
     (if k \<notin> set Const_fields then
        Inl (TypeError (''__init__() got an unexpected keyword argument '' @ k))
      else if k \<in> set (map fst bound) then
        Inl (TypeError (''__init__() got multiple values for argument '' @ k))
      else bind_keywords (bound @ [(k, v)]) kws)"

definition field_or :: "(string \<times> pynum) list \<Rightarrow> string \<Rightarrow> pynum \<Rightarrow> pynum" where
  "field_or bound k d = (case map_of bound k of Some v \<Rightarrow> v | None \<Rightarrow> d)"

definition Const_init :: "pynum list \<Rightarrow> (string \<times> pynum) list \<Rightarrow> pyerr + signal" where
  "Const_init args kwargs =
     (case bind_keywords (zip Const_fields args) kwargs of
        Inl e \<Rightarrow> Inl e
      | Inr bound \<Rightarrow>
          (if length Const_fields < length args then
             Inl (TypeError ''__init__() takes from 1 to 4 positional arguments'')
           else
             Inr (Const (field_or bound ''t_start'' NINF)
                        (field_or bound ''t_end'' PINF)
                        (field_or bound ''value'' (PyFloat (Fin 0))))))"

subsection \<open>The operators\<close>

text \<open>
  Each operator method tests \<^verbatim>\<open>isinstance(other, BaseSignal)\<close>, then
  \<^verbatim>\<open>isinstance(other, (float, int))\<close> (a \<^verbatim>\<open>bool\<close> is an \<^verbatim>\<open>int\<close>), and raises
  \<^verbatim>\<open>TypeError\<close> otherwise. A number is wrapped by \<^verbatim>\<open>Const(value=other)\<close>.
\<close>

definition only_support :: "string \<Rightarrow> string" where
  "only_support what =
     what @ '' with Signal only support for [SignalOperations | float | int]. ''"

definition called_for :: "string \<Rightarrow> pyobj \<Rightarrow> pyobj \<Rightarrow> string" where
  "called_for opr x y =
     ''Operand '' @ opr @ '' was called for types: '' @ type_str x @ '' '' @ opr @ '' ''
       @ type_str y"

definition wrap :: "pynum \<Rightarrow> (signal \<Rightarrow> signal) \<Rightarrow> pyerr + signal" where
  "wrap v node = (case Const_init [] [(''value'', v)] of Inl e \<Rightarrow> Inl e | Inr c \<Rightarrow> Inr (node c))"

fun add :: "signal \<Rightarrow> pyobj \<Rightarrow> pyerr + signal" where
  "add self (Sig other) = Inr (SumOfSignals (Sig self) (Sig other))"
| "add self (Num other) = wrap other (\<lambda>c. SumOfSignals (Sig self) (Sig c))"
| "add self other =
     Inl (TypeError (only_support ''Addition'' @ called_for ''+'' (Sig self) other))"

definition radd :: "signal \<Rightarrow> pyobj \<Rightarrow> pyerr + signal" where
  "radd self other = add self other"

fun mul :: "signal \<Rightarrow> pyobj \<Rightarrow> pyerr + signal" where
  "mul self (Sig other) = Inr (ProductOfSignals (Sig self) (Sig other))"
| "mul self (Num other) = wrap other (\<lambda>c. ProductOfSignals (Sig self) (Sig c))"
| "mul self other =
     Inl (TypeError (only_support ''Multiplication'' @ called_for ''*'' (Sig self) other))"

definition rmul :: "signal \<Rightarrow> pyobj \<Rightarrow> pyerr + signal" where
  "rmul self other = mul self other"

fun sub :: "signal \<Rightarrow> pyobj \<Rightarrow> pyerr + signal" where
  "sub self (Sig other) = Inr (DifferenceOfSignals (Sig self) (Sig other))"
| "sub self (Num other) = wrap other (\<lambda>c. DifferenceOfSignals (Sig self) (Sig c))"
| "sub self other =
     Inl (TypeError (only_support ''Addition'' @ called_for ''-'' (Sig self) other))"

fun rsub :: "signal \<Rightarrow> pyobj \<Rightarrow> pyerr + signal" where
  "rsub self (Sig other) = Inr (DifferenceOfSignals (Sig other) (Sig self))"
| "rsub self (Num other) = wrap other (\<lambda>c. DifferenceOfSignals (Sig c) (Sig self))"
| "rsub self other =
     Inl (TypeError (only_support ''Addition'' @ called_for ''-'' other (Sig self)))"

fun truediv :: "signal \<Rightarrow> pyobj \<Rightarrow> pyerr + signal" where
  "truediv self (Sig other) = Inr (DivisionOfSignals (Sig self) (Sig other))"
| "truediv self (Num other) = wrap other (\<lambda>c. DivisionOfSignals (Sig self) (Sig c))"
| "truediv self other =
     Inl (TypeError (only_support ''Addition'' @ called_for ''/'' (Sig self) other))"

fun rtruediv :: "signal \<Rightarrow> pyobj \<Rightarrow> pyerr + signal" where
  "rtruediv self (Sig other) = Inr (DivisionOfSignals (Sig other) (Sig self))"
| "rtruediv self (Num other) = wrap other (\<lambda>c. DivisionOfSignals (Sig c) (Sig self))"
| "rtruediv self other =
     Inl (TypeError (only_support ''Addition'' @ called_for ''/'' other (Sig self)))"

section \<open>Facts about the model\<close>

lemma float_limit_large: "1000 < float_limit"
  by (simp add: float_limit_def)

lemma to_float_cases: "to_float a = Inl OverflowError \<or> (\<exists>f. to_float a = Inr f)"
  by (cases a) auto

lemma float_lt_PInf: "float_lt x PInf \<longleftrightarrow> x \<noteq> NaN \<and> x \<noteq> PInf"
  by (cases x) auto

lemma float_le_NInf: "float_le NInf x \<longleftrightarrow> x \<noteq> NaN"
  by (cases x) auto


text \<open>No number lies in a reversed window; the start of a non-empty window lies in it.\<close>

lemma float_window_empty: "float_lt b a \<Longrightarrow> \<not> (float_le a x \<and> float_lt x b)"
  by (cases a; cases x; cases b) auto


lemma py_sub_float_right: "py_sub t (PyFloat f) = float_binop float_sub t (PyFloat f)"
  by (cases t) (simp_all add: py_sub_def)

text \<open>
  The leaf \<^verbatim>\<open>Const(value=v)\<close> returns \<open>v\<close> at every time below \<open>+inf\<close> whose
  difference to \<open>-inf\<close> Python can compute.
\<close>

lemma Const_leaf_active:
  assumes "py_lt t PINF" and "to_float t \<noteq> Inl OverflowError"
  shows "Signal_call NINF PINF (\<lambda>u. Inr v) t = Inr v"
proof -
  from assms(1) have le: "py_le NINF t"
    by (simp add: py_lt_def py_le_def PINF_def NINF_def float_lt_PInf float_le_NInf)
  from assms(2) obtain f where f: "to_float t = Inr f"
    using to_float_cases [of t] by auto
  have "py_sub t NINF = Inr (PyFloat (float_sub f NInf))"
    by (simp add: NINF_def py_sub_float_right float_binop_def f)
  with le assms(1) show ?thesis
    by (simp add: Signal_call_def)
qed

lemma Const_keyword: "Const_init [] [(''value'', v)] = Inr (Const NINF PINF v)"
  by (simp add: Const_init_def Const_fields_def field_or_def)

lemma Const_positional1: "Const_init [v] [] = Inr (Const v PINF (PyFloat (Fin 0)))"
  by (simp add: Const_init_def Const_fields_def field_or_def)

lemma Const_positional3: "Const_init [a, b, v] [] = Inr (Const a b v)"
  by (simp add: Const_init_def Const_fields_def field_or_def)

lemma wrap_value: "wrap v node = Inr (node (Const NINF PINF v))"
  by (simp add: wrap_def Const_keyword)

lemma call_each_Inr:
  "call_each s ts = Inr rs \<Longrightarrow>
     length rs = length ts \<and> (\<forall>i<length ts. call s (ts ! i) = Inr (rs ! i))"
proof (induction ts arbitrary: rs)
  case Nil
  then show ?case by simp
next
  case (Cons t ts)
  then obtain v vs
    where v: "call s t = Inr v" and vs: "call_each s ts = Inr vs" and rs: "rs = v # vs"
    by (auto split: sum.splits)
  from Cons.IH [OF vs] have len: "length vs = length ts"
    and nth: "\<And>i. i < length ts \<Longrightarrow> call s (ts ! i) = Inr (vs ! i)" by auto
  show ?case
  proof (intro conjI allI impI)
    show "length rs = length (t # ts)" using len rs by simp
  next
    fix i assume "i < length (t # ts)"
    then show "call s ((t # ts) ! i) = Inr (rs ! i)"
      using v nth rs by (cases i) auto
  qed
qed

lemma call_each_returns_iff:
  "(\<exists>rs. call_each s ts = Inr rs) \<longleftrightarrow> (\<forall>t \<in> set ts. \<exists>v. call s t = Inr v)"
  by (induction ts) (auto split: sum.splits)

lemma two_sided_Inr_right:
  "two_sided f l (Inr b) = (case l of Inl e \<Rightarrow> Inl e | Inr a \<Rightarrow> f a b)"
  by (cases l) (simp_all add: two_sided_def)

lemma two_sided_Inr_left:
  "two_sided f (Inr a) r = (case r of Inl e \<Rightarrow> Inl e | Inr b \<Rightarrow> f a b)"
  by (simp add: two_sided_def)

lemma float_add_zero: "float_add f (Fin 0) = f"
  by (cases f) simp_all

lemma float_mul_one: "float_mul f (Fin 1) = f"
  by (cases f) simp_all

text \<open>
  Adding the \<^verbatim>\<open>int\<close> zero and multiplying by the \<^verbatim>\<open>int\<close> one keep the value of a
  number.
\<close>

lemma py_add_zero: "\<exists>s. py_add u (PyInt 0) = Inr s \<and> exact s = exact u"
  using float_limit_large by (cases u) (simp_all add: py_add_def float_binop_def float_add_zero)

lemma py_mul_one: "\<exists>p. py_mul u (PyInt 1) = Inr p \<and> exact p = exact u"
  using float_limit_large by (cases u) (simp_all add: py_mul_def float_binop_def float_mul_one)

text \<open>Dividing by a number of value zero raises.\<close>

lemma to_float_zero: "exact d = Fin 0 \<Longrightarrow> to_float d = Inr (Fin 0)"
  using float_limit_large by (cases d) (auto split: if_splits)

lemma as_int_zero: "exact d = Fin 0 \<Longrightarrow> as_int d = Some n \<Longrightarrow> n = 0"
  by (cases d) (auto split: if_splits)

lemma py_truediv_zero:
  assumes "exact d = Fin 0"
  shows "py_truediv n d =
    (if as_int d = None \<and> to_float n = Inl OverflowError then Inl OverflowError
     else Inl ZeroDivisionError)"
proof (cases "as_int n")
  case None
  then obtain f where "n = PyFloat f" by (cases n) auto
  then show ?thesis
    using to_float_zero [OF assms] by (simp add: py_truediv_def split: option.splits)
next
  case (Some m)
  show ?thesis
  proof (cases "as_int d")
    case None
    then show ?thesis
      using Some to_float_zero [OF assms] to_float_cases [of n]
      by (auto simp: py_truediv_def)
  next
    case (Some k)
    then have "k = 0" using as_int_zero [OF assms] by simp
    with Some \<open>as_int n = Some m\<close> show ?thesis
      by (simp add: py_truediv_def)
  qed
qed

text \<open>A \<^verbatim>\<open>bool\<close> operand of an arithmetic operator acts as the \<^verbatim>\<open>int\<close> 1 or 0.\<close>

lemma bool_as_int_ops:
  "py_add u (PyBool b) = py_add u (PyInt (if b then 1 else 0))"
  "py_sub u (PyBool b) = py_sub u (PyInt (if b then 1 else 0))"
  "py_mul u (PyBool b) = py_mul u (PyInt (if b then 1 else 0))"
  "py_truediv u (PyBool b) = py_truediv u (PyInt (if b then 1 else 0))"
  using float_limit_large
  by (cases u; cases b;
      simp add: py_add_def py_sub_def py_mul_def py_truediv_def float_binop_def)+

text \<open>
  At \<open>+inf\<close> and at not-a-number every window is closed: a signal that returns there
  returns \<open>0.0\<close>.
\<close>

lemma float_lt_PInf_any: "\<not> float_lt x PInf \<Longrightarrow> \<not> float_lt x b"
  by (cases x; cases b) auto

lemma Signal_call_outside:
  "\<not> py_lt t PINF \<Longrightarrow> Signal_call t_start t_end local t = Inr (PyFloat (Fin 0))"
  using float_lt_PInf_any [of "exact t" "exact t_end"]
  by (simp add: Signal_call_def py_lt_def PINF_def)

lemma two_sided_InrD:
  "two_sided f l r = Inr v \<Longrightarrow> \<exists>a b. l = Inr a \<and> r = Inr b \<and> f a b = Inr v"
  by (cases l; cases r) (simp_all add: two_sided_def)

lemma zero_ops:
  "py_add (PyFloat (Fin 0)) (PyFloat (Fin 0)) = Inr (PyFloat (Fin 0))"
  "py_sub (PyFloat (Fin 0)) (PyFloat (Fin 0)) = Inr (PyFloat (Fin 0))"
  "py_mul (PyFloat (Fin 0)) (PyFloat (Fin 0)) = Inr (PyFloat (Fin 0))"
  "py_truediv (PyFloat (Fin 0)) (PyFloat (Fin 0)) = Inl ZeroDivisionError"
  by (simp_all add: py_add_def py_sub_def py_mul_def py_truediv_def float_binop_def float_sub_def)

lemma outside_every_window:
  assumes "\<not> py_lt t PINF"
  shows "call a t = Inr v \<Longrightarrow> v = PyFloat (Fin 0)"
    and "call_obj x t = Inr w \<Longrightarrow> w = PyFloat (Fin 0)"
proof (induction a and x arbitrary: v and w)
  case (SumOfSignals l r)
  from SumOfSignals.prems obtain a b
    where "call_obj l t = Inr a" "call_obj r t = Inr b" "py_add a b = Inr v"
    by (auto dest: two_sided_InrD)
  with SumOfSignals.IH show ?case by (simp add: zero_ops)
next
  case (DifferenceOfSignals l r)
  from DifferenceOfSignals.prems obtain a b
    where "call_obj l t = Inr a" "call_obj r t = Inr b" "py_sub a b = Inr v"
    by (auto dest: two_sided_InrD)
  with DifferenceOfSignals.IH show ?case by (simp add: zero_ops)
next
  case (ProductOfSignals l r)
  from ProductOfSignals.prems obtain a b
    where "call_obj l t = Inr a" "call_obj r t = Inr b" "py_mul a b = Inr v"
    by (auto dest: two_sided_InrD)
  with ProductOfSignals.IH show ?case by (simp add: zero_ops)
next
  case (DivisionOfSignals l r)
  from DivisionOfSignals.prems obtain a b
    where "call_obj l t = Inr a" "call_obj r t = Inr b" "py_truediv a b = Inr v"
    by (auto dest: two_sided_InrD)
  with DivisionOfSignals.IH show ?case by (simp add: zero_ops)
next
  case (Signal cls t_start t_end local)
  then show ?case using assms by (simp add: Signal_call_outside)
next
  case (Const t_start t_end c)
  then show ?case using assms by (simp add: Signal_call_outside)
qed simp_all

text \<open>At an \<^verbatim>\<open>int\<close> too large for a float the leaf of a literal raises.\<close>

lemma Const_leaf_overflow:
  "float_limit \<le> \<bar>n\<bar> \<Longrightarrow> call (Const NINF PINF v) (PyInt n) = Inl OverflowError"
  by (simp add: Signal_call_def py_le_def py_lt_def NINF_def PINF_def py_sub_def float_binop_def)








text \<open>Facts about the array that \<^verbatim>\<open>eval_on\<close> builds.\<close>

lemma shift53_small: "m < 2 ^ 53 \<Longrightarrow> shift53 m = 0"
  by (simp add: shift53.simps)

lemma round_half_even_one: "round_half_even m 1 = m"
  by (simp add: round_half_even_def)

text \<open>An \<^verbatim>\<open>int\<close> of magnitude at most \<open>2 ^ 53\<close> is stored exactly.\<close>

lemma int_to_float64_exact:
  assumes "\<bar>n\<bar> \<le> 2 ^ 53"
  shows "int_to_float64 n = of_int n"
proof (cases "\<bar>n\<bar> < 2 ^ 53")
  case True
  then have "nat \<bar>n\<bar> < 2 ^ 53" by simp
  then have "shift53 (nat \<bar>n\<bar>) = 0" by (rule shift53_small)
  then have "int_to_float64 n = of_int (sgn n * \<bar>n\<bar>)"
    by (simp add: int_to_float64_def round_half_even_one)
  then show ?thesis
    by (simp only: mult_sgn_abs)
next
  case False
  with assms have n: "\<bar>n\<bar> = 2 ^ 53" by simp
  then have "nat \<bar>n\<bar> = 2 ^ 53" by simp
  then have "shift53 (nat \<bar>n\<bar>) = 1" by (simp add: shift53.simps)
  moreover have "round_half_even (2 ^ 53) (2 ^ 1) = 2 ^ 52"
    by (simp add: round_half_even_def)
  moreover have "sgn n * 2 ^ 53 = n" using n mult_sgn_abs [of n] by simp
  ultimately have "int_to_float64 n = of_int (sgn n * 2 ^ 53)"
    using n by (simp add: int_to_float64_def)
  with \<open>sgn n * 2 ^ 53 = n\<close> show ?thesis by simp
qed

lemma cast_keeps_value:
  assumes "d \<noteq> NpFloat64 \<or> as_int v = None \<or> (\<exists>n. as_int v = Some n \<and> \<bar>n\<bar> \<le> 2 ^ 53)"
  shows "exact (cast d v) = exact v"
  using assms by (cases d; cases v) (auto simp: int_to_float64_exact)

lemma cast_float64_int:
  "as_int v = Some n \<Longrightarrow> exact (cast NpFloat64 v) = Fin (int_to_float64 n)"
  by (cases v) (auto simp: int_to_float64_exact)

lemma promote_types_Object: "promote_types a b = NpObject \<longleftrightarrow> a = NpObject \<or> b = NpObject"
  by (cases a; cases b) simp_all

lemma promote_types_Float64:
  "a = NpFloat64 \<or> b = NpFloat64 \<Longrightarrow> a \<noteq> NpObject \<Longrightarrow> b \<noteq> NpObject \<Longrightarrow>
     promote_types a b = NpFloat64"
  by (cases a; cases b) simp_all

lemma foldl_promote_Object:
  "foldl (\<lambda>d y. promote_types (discover y) d) d0 ys = NpObject \<longleftrightarrow>
     d0 = NpObject \<or> (\<exists>y \<in> set ys. discover y = NpObject)"
  by (induction ys arbitrary: d0) (auto simp: promote_types_Object)

lemma foldl_promote_Float64:
  "d0 = NpFloat64 \<or> (\<exists>y \<in> set ys. discover y = NpFloat64) \<Longrightarrow>
   d0 \<noteq> NpObject \<Longrightarrow> \<forall>y \<in> set ys. discover y \<noteq> NpObject \<Longrightarrow>
     foldl (\<lambda>d y. promote_types (discover y) d) d0 ys = NpFloat64"
proof (induction ys arbitrary: d0)
  case Nil
  then show ?case by simp
next
  case (Cons y ys)
  let ?d = "promote_types (discover y) d0"
  from Cons.prems have no: "?d \<noteq> NpObject"
    by (simp add: promote_types_Object)
  have "?d = NpFloat64 \<or> (\<exists>z \<in> set ys. discover z = NpFloat64)"
    using Cons.prems by (auto simp: promote_types_Float64)
  from Cons.IH [OF this no] Cons.prems(3) show ?case by simp
qed

lemma foldl_promote_Int64:
  "\<forall>y \<in> set ys. discover y = NpInt64 \<Longrightarrow>
     foldl (\<lambda>d y. promote_types (discover y) d) NpInt64 ys = NpInt64"
  by (induction ys) simp_all

text \<open>
  The element type is \<^verbatim>\<open>float64\<close> as soon as one element is a float and every \<^verbatim>\<open>int\<close>
  fits 64 bits; it is \<^verbatim>\<open>int64\<close> when every element is an \<^verbatim>\<open>int\<close> that fits.
\<close>

lemma result_dtype_Float64:
  assumes "\<exists>x \<in> set xs. discover x = NpFloat64" and "\<forall>x \<in> set xs. discover x \<noteq> NpObject"
  shows "result_dtype xs = NpFloat64"
proof (cases xs)
  case Nil
  with assms(1) show ?thesis by simp
next
  case (Cons x ys)
  with assms show ?thesis
    by (auto simp: result_dtype_def intro!: foldl_promote_Float64)
qed

lemma result_dtype_Int64:
  assumes "xs \<noteq> []" and "\<forall>x \<in> set xs. discover x = NpInt64"
  shows "result_dtype xs = NpInt64"
  using assms by (cases xs) (simp_all add: result_dtype_def foldl_promote_Int64)

lemma discover_Int64_cast: "discover x = NpInt64 \<Longrightarrow> cast NpInt64 x = x"
  by (cases x) (simp_all split: if_splits)

lemma eval_on_returns_iff:
  "(\<exists>A. eval_on s ts = Inr A) \<longleftrightarrow> (\<forall>t \<in> set ts. \<exists>v. call s t = Inr v)"
  using call_each_returns_iff [of s ts]
  by (auto simp: eval_on_def split: sum.splits)

lemma eval_on_Inr:
  assumes "eval_on s ts = Inr A"
  shows "length (items A) = length ts"
    and "i < length ts \<Longrightarrow> \<exists>v. call s (ts ! i) = Inr v \<and> items A ! i = cast (dtype A) v"
proof -
  from assms obtain rs where rs: "call_each s ts = Inr rs" and A: "A = np_array rs"
    by (auto simp: eval_on_def split: sum.splits)
  from call_each_Inr [OF rs] have len: "length rs = length ts"
    and nth: "\<And>i. i < length ts \<Longrightarrow> call s (ts ! i) = Inr (rs ! i)" by auto
  show "length (items A) = length ts"
    using A len by (simp add: np_array_def)
  show "\<exists>v. call s (ts ! i) = Inr v \<and> items A ! i = cast (dtype A) v" if "i < length ts"
    using that A len nth [OF that] by (simp add: np_array_def)
qed

lemma call_each_map: "call_each s ts = Inr rs \<Longrightarrow> map (call s) ts = map Inr rs"
  by (induction ts arbitrary: rs) (auto split: sum.splits)

lemma eval_on_array:
  "eval_on s ts = Inr A \<Longrightarrow> \<exists>rs. map (call s) ts = map Inr rs \<and> A = np_array rs"
  by (auto simp: eval_on_def split: sum.splits dest: call_each_map)

lemma discover_not_Object:
  "discover x \<noteq> NpObject \<longleftrightarrow> (\<forall>n. x = PyInt n \<longrightarrow> - (2 ^ 63) \<le> n \<and> n < 2 ^ 64)"
  by (cases x) auto

lemma discover_Float64: "discover x = NpFloat64 \<longleftrightarrow> (\<exists>f. x = PyFloat f)"
  by (cases x) auto

lemma discover_Int64_int: "- (2 ^ 63) \<le> n \<Longrightarrow> n < 2 ^ 63 \<Longrightarrow> discover (PyInt n) = NpInt64"
  by simp

section \<open>The claims\<close>




text \<open>
  C2, as the code has it. For every signal \<open>a\<close> and every number \<open>x\<close> (\<^verbatim>\<open>int\<close>,
  \<^verbatim>\<open>bool\<close> or \<^verbatim>\<open>float\<close>), \<open>a + x\<close> is the sum node of \<open>a\<close>, unchanged, and the constant
  leaf of \<open>x\<close> with the window from \<open>-inf\<close> to \<open>+inf\<close>. At every time \<open>t\<close> below \<open>+inf\<close>
  that is not an \<^verbatim>\<open>int\<close> too large for a float the leaf returns \<open>x\<close>, and \<open>(a + x)(t)\<close>
  is the outcome of \<open>a(t) + x\<close>, whatever the window of \<open>a\<close>.
\<close>

theorem add_literal:
  "add a (Num x) = Inr (SumOfSignals (Sig a) (Sig (Const NINF PINF x))) \<and>
   (py_lt t PINF \<and> to_float t \<noteq> Inl OverflowError \<longrightarrow>
      call (Const NINF PINF x) t = Inr x \<and>
      call (SumOfSignals (Sig a) (Sig (Const NINF PINF x))) t
        = (case call a t of Inl e \<Rightarrow> Inl e | Inr u \<Rightarrow> py_add u x))"
  by (simp add: wrap_value Const_leaf_active two_sided_Inr_right)

theorem add_literal_witness:
  "py_lt (PyInt 0) PINF \<and> to_float (PyInt 0) \<noteq> Inl OverflowError \<and>
   add (Const (PyInt 2) (PyInt 5) (PyInt 7)) (Num (PyInt 3))
     = Inr (SumOfSignals (Sig (Const (PyInt 2) (PyInt 5) (PyInt 7)))
                         (Sig (Const NINF PINF (PyInt 3)))) \<and>
   call (SumOfSignals (Sig (Const (PyInt 2) (PyInt 5) (PyInt 7)))
                      (Sig (Const NINF PINF (PyInt 3)))) (PyInt 0)
     = Inr (PyFloat (Fin 3))"
proof -
  have h: "py_lt (PyInt 0) PINF \<and> to_float (PyInt 0) \<noteq> Inl OverflowError"
    by (simp add: py_lt_def PINF_def float_limit_def)
  have a: "call (Const (PyInt 2) (PyInt 5) (PyInt 7)) (PyInt 0) = Inr (PyFloat (Fin 0))"
    by (simp add: Signal_call_def py_le_def)
  have s: "py_add (PyFloat (Fin 0)) (PyInt 3) = Inr (PyFloat (Fin 3))"
    by (simp add: py_add_def float_binop_def float_limit_def)
  from h a s add_literal [of "Const (PyInt 2) (PyInt 5) (PyInt 7)" "PyInt 3" "PyInt 0"]
  show ?thesis by (simp add: two_sided_def)
qed

text \<open>
  C2 as stated fails at \<open>t = +inf\<close>: the window of the leaf is half-open, so the leaf
  of \<open>5\<close> returns \<open>0.0\<close> there. With \<open>a = Const(value=1)\<close>, \<open>(a + 5)(+inf)\<close> is \<open>0.0\<close>
  and \<open>a(+inf) + 5\<close> is \<open>5.0\<close>.
\<close>

theorem add_literal_counterexample:
  "add (Const NINF PINF (PyInt 1)) (Num (PyInt 5))
     = Inr (SumOfSignals (Sig (Const NINF PINF (PyInt 1))) (Sig (Const NINF PINF (PyInt 5)))) \<and>
   call (SumOfSignals (Sig (Const NINF PINF (PyInt 1))) (Sig (Const NINF PINF (PyInt 5)))) PINF
     = Inr (PyFloat (Fin 0)) \<and>
   call (Const NINF PINF (PyInt 1)) PINF = Inr (PyFloat (Fin 0)) \<and>
   py_add (PyFloat (Fin 0)) (PyInt 5) = Inr (PyFloat (Fin 5)) \<and>
   \<not> py_eq (PyFloat (Fin 0)) (PyFloat (Fin 5))"
  by (simp add: wrap_value Signal_call_def two_sided_def py_le_def py_lt_def py_eq_def
      py_add_def float_binop_def NINF_def PINF_def float_limit_def)

text \<open>
  C3, as the code has it. With the value passed by keyword, \<open>a = Const(value=2)\<close>,
  \<open>b = Const(value=3)\<close> and \<open>s = a + b\<close> give \<open>s(0) == 5\<close> and \<open>s(100) == 5\<close>.
\<close>

theorem const_keyword_sum:
  "Const_init [] [(''value'', PyInt 2)] = Inr (Const NINF PINF (PyInt 2)) \<and>
   Const_init [] [(''value'', PyInt 3)] = Inr (Const NINF PINF (PyInt 3)) \<and>
   add (Const NINF PINF (PyInt 2)) (Sig (Const NINF PINF (PyInt 3)))
     = Inr (SumOfSignals (Sig (Const NINF PINF (PyInt 2))) (Sig (Const NINF PINF (PyInt 3)))) \<and>
   call (SumOfSignals (Sig (Const NINF PINF (PyInt 2))) (Sig (Const NINF PINF (PyInt 3))))
     (PyInt 0) = Inr (PyInt 5) \<and>
   call (SumOfSignals (Sig (Const NINF PINF (PyInt 2))) (Sig (Const NINF PINF (PyInt 3))))
     (PyInt 100) = Inr (PyInt 5) \<and>
   py_eq (PyInt 5) (PyInt 5)"
proof -
  have t: "py_lt (PyInt n) PINF" for n
    by (simp add: py_lt_def PINF_def)
  have c: "to_float (PyInt 0) \<noteq> Inl OverflowError" "to_float (PyInt 100) \<noteq> Inl OverflowError"
    by (simp_all add: float_limit_def)
  show ?thesis
    using t c by (simp add: Const_keyword Const_leaf_active two_sided_def py_add_def py_eq_def)
qed

text \<open>
  C3 as stated fails: the first positional parameter of the constructor is \<open>t_start\<close>,
  so \<open>Const(2)\<close> is the leaf of the default value \<open>0.0\<close> on the window from \<open>2\<close>, and
  the sum of \<open>Const(2)\<close> and \<open>Const(3)\<close> is \<open>0.0\<close> at \<open>0\<close> and at \<open>100\<close>.
\<close>

theorem const_sum_counterexample:
  "Const_init [PyInt 2] [] = Inr (Const (PyInt 2) PINF (PyFloat (Fin 0))) \<and>
   Const_init [PyInt 3] [] = Inr (Const (PyInt 3) PINF (PyFloat (Fin 0))) \<and>
   add (Const (PyInt 2) PINF (PyFloat (Fin 0))) (Sig (Const (PyInt 3) PINF (PyFloat (Fin 0))))
     = Inr (SumOfSignals (Sig (Const (PyInt 2) PINF (PyFloat (Fin 0))))
                         (Sig (Const (PyInt 3) PINF (PyFloat (Fin 0))))) \<and>
   call (SumOfSignals (Sig (Const (PyInt 2) PINF (PyFloat (Fin 0))))
                      (Sig (Const (PyInt 3) PINF (PyFloat (Fin 0))))) (PyInt 0)
     = Inr (PyFloat (Fin 0)) \<and>
   call (SumOfSignals (Sig (Const (PyInt 2) PINF (PyFloat (Fin 0))))
                      (Sig (Const (PyInt 3) PINF (PyFloat (Fin 0))))) (PyInt 100)
     = Inr (PyFloat (Fin 0)) \<and>
   \<not> py_eq (PyFloat (Fin 0)) (PyInt 5)"
  by (simp add: Const_positional1 Signal_call_def two_sided_def py_le_def py_lt_def py_eq_def
      py_add_def py_sub_def float_binop_def PINF_def)

text \<open>
  C4, as the code has it. With the identities built by keyword, \<open>Const(value=0)\<close> and
  \<open>Const(value=1)\<close>: at every time \<open>t\<close> that is not an \<^verbatim>\<open>int\<close> too large for a float,
  \<open>(a + Const(value=0))(t)\<close> and \<open>(a * Const(value=1))(t)\<close> raise what \<open>a(t)\<close> raises,
  and otherwise return a number of the value of \<open>a(t)\<close>, equal to it by Python's \<open>==\<close>
  unless it is not-a-number.
\<close>

theorem const_identity:
  "Const_init [] [(''value'', PyInt 0)] = Inr (Const NINF PINF (PyInt 0)) \<and>
   Const_init [] [(''value'', PyInt 1)] = Inr (Const NINF PINF (PyInt 1)) \<and>
   add a (Sig (Const NINF PINF (PyInt 0)))
     = Inr (SumOfSignals (Sig a) (Sig (Const NINF PINF (PyInt 0)))) \<and>
   mul a (Sig (Const NINF PINF (PyInt 1)))
     = Inr (ProductOfSignals (Sig a) (Sig (Const NINF PINF (PyInt 1)))) \<and>
   (to_float t \<noteq> Inl OverflowError \<longrightarrow>
      (\<forall>e. call a t = Inl e \<longrightarrow>
         call (SumOfSignals (Sig a) (Sig (Const NINF PINF (PyInt 0)))) t = Inl e \<and>
         call (ProductOfSignals (Sig a) (Sig (Const NINF PINF (PyInt 1)))) t = Inl e) \<and>
      (\<forall>u. call a t = Inr u \<longrightarrow>
         (\<exists>s p. call (SumOfSignals (Sig a) (Sig (Const NINF PINF (PyInt 0)))) t = Inr s \<and>
                call (ProductOfSignals (Sig a) (Sig (Const NINF PINF (PyInt 1)))) t = Inr p \<and>
                exact s = exact u \<and> exact p = exact u \<and>
                (exact u \<noteq> NaN \<longrightarrow> py_eq s u \<and> py_eq p u))))"
proof (cases "py_lt t PINF")
  case True
  have "\<exists>s p. py_add u (PyInt 0) = Inr s \<and> py_mul u (PyInt 1) = Inr p \<and>
          exact s = exact u \<and> exact p = exact u \<and> (exact u \<noteq> NaN \<longrightarrow> py_eq s u \<and> py_eq p u)"
    for u
    using py_add_zero [of u] py_mul_one [of u] by (auto simp: py_eq_def)
  with True show ?thesis
    by (simp add: Const_keyword Const_leaf_active two_sided_Inr_right)
next
  case False
  then have leaf: "Signal_call NINF PINF local t = Inr (PyFloat (Fin 0))" for local
    by (rule Signal_call_outside)
  have zero: "call a t = Inr u \<Longrightarrow> u = PyFloat (Fin 0)" for u
    using outside_every_window(1) [OF False] .
  have "\<exists>s p. two_sided py_add (Inr u) (Inr (PyFloat (Fin 0))) = Inr s \<and>
               two_sided py_mul (Inr u) (Inr (PyFloat (Fin 0))) = Inr p \<and>
               exact s = exact u \<and> exact p = exact u \<and>
               (exact u \<noteq> NaN \<longrightarrow> py_eq s u \<and> py_eq p u)"
    if "call a t = Inr u" for u
    using zero [OF that] by (simp add: two_sided_def zero_ops py_eq_def)
  then show ?thesis
    by (simp add: Const_keyword leaf two_sided_Inr_right)
qed

theorem const_identity_witness:
  "to_float (PyInt 3) \<noteq> Inl OverflowError \<and>
   call (Const (PyInt 2) (PyInt 5) (PyFloat (Fin 7))) (PyInt 3) = Inr (PyFloat (Fin 7)) \<and>
   call (SumOfSignals (Sig (Const (PyInt 2) (PyInt 5) (PyFloat (Fin 7))))
                      (Sig (Const NINF PINF (PyInt 0)))) (PyInt 3) = Inr (PyFloat (Fin 7)) \<and>
   call (ProductOfSignals (Sig (Const (PyInt 2) (PyInt 5) (PyFloat (Fin 7))))
                          (Sig (Const NINF PINF (PyInt 1)))) (PyInt 3) = Inr (PyFloat (Fin 7)) \<and>
   py_eq (PyFloat (Fin 7)) (PyFloat (Fin 7))"
proof -
  let ?a = "Const (PyInt 2) (PyInt 5) (PyFloat (Fin 7))"
  have h: "to_float (PyInt 3) \<noteq> Inl OverflowError"
    by (simp add: float_limit_def)
  have a: "call ?a (PyInt 3) = Inr (PyFloat (Fin 7))"
    by (simp add: Signal_call_def py_le_def py_lt_def py_sub_def)
  from const_identity [of ?a "PyInt 3"] h a
  obtain s p where sp:
    "call (SumOfSignals (Sig ?a) (Sig (Const NINF PINF (PyInt 0)))) (PyInt 3) = Inr s"
    "call (ProductOfSignals (Sig ?a) (Sig (Const NINF PINF (PyInt 1)))) (PyInt 3) = Inr p"
    "py_eq s (PyFloat (Fin 7))" "py_eq p (PyFloat (Fin 7))"
    by auto
  have t: "py_lt (PyInt 3) PINF"
    by (simp add: py_lt_def PINF_def)
  have "py_add (PyFloat (Fin 7)) (PyInt 0) = Inr (PyFloat (Fin 7))"
    "py_mul (PyFloat (Fin 7)) (PyInt 1) = Inr (PyFloat (Fin 7))"
    by (simp_all add: py_add_def py_mul_def float_binop_def float_limit_def)
  with sp h a t show ?thesis
    by (simp add: two_sided_def Const_leaf_active py_eq_def)
qed

text \<open>
  C4 as stated fails for the product: \<open>Const(1)\<close> is the leaf of the default value
  \<open>0.0\<close> on the window from \<open>1\<close>, so with \<open>a = Const(value=2)\<close> the product
  \<open>(a * Const(1))(3)\<close> is \<open>0.0\<close> while \<open>a(3)\<close> is \<open>2\<close>.
\<close>

theorem const_identity_counterexample:
  "Const_init [PyInt 1] [] = Inr (Const (PyInt 1) PINF (PyFloat (Fin 0))) \<and>
   mul (Const NINF PINF (PyInt 2)) (Sig (Const (PyInt 1) PINF (PyFloat (Fin 0))))
     = Inr (ProductOfSignals (Sig (Const NINF PINF (PyInt 2)))
                             (Sig (Const (PyInt 1) PINF (PyFloat (Fin 0))))) \<and>
   call (Const NINF PINF (PyInt 2)) (PyInt 3) = Inr (PyInt 2) \<and>
   call (ProductOfSignals (Sig (Const NINF PINF (PyInt 2)))
                          (Sig (Const (PyInt 1) PINF (PyFloat (Fin 0))))) (PyInt 3)
     = Inr (PyFloat (Fin 0)) \<and>
   \<not> py_eq (PyFloat (Fin 0)) (PyInt 2)"
  by (simp add: Const_positional1 Signal_call_def two_sided_def py_le_def py_lt_def py_eq_def
      py_mul_def py_sub_def float_binop_def NINF_def PINF_def float_limit_def)

text \<open>
  C5, as the code has it. The reflected operators keep the number on the left:
  \<open>b - a\<close> is the difference node, and \<open>b / a\<close> the quotient node, of the constant leaf
  of \<open>b\<close> and \<open>a\<close>. At every time \<open>t\<close> below \<open>+inf\<close> that is not an \<^verbatim>\<open>int\<close> too large for
  a float, \<open>(b - a)(t)\<close> is the outcome of \<open>b - a(t)\<close> and \<open>(b / a)(t)\<close> the outcome of
  \<open>b / a(t)\<close>, a raised \<^verbatim>\<open>ZeroDivisionError\<close> included.
\<close>

theorem reflected_literal_left:
  "rsub a (Num b) = Inr (DifferenceOfSignals (Sig (Const NINF PINF b)) (Sig a)) \<and>
   rtruediv a (Num b) = Inr (DivisionOfSignals (Sig (Const NINF PINF b)) (Sig a)) \<and>
   (py_lt t PINF \<and> to_float t \<noteq> Inl OverflowError \<longrightarrow>
      call (DifferenceOfSignals (Sig (Const NINF PINF b)) (Sig a)) t
        = (case call a t of Inl e \<Rightarrow> Inl e | Inr u \<Rightarrow> py_sub b u) \<and>
      call (DivisionOfSignals (Sig (Const NINF PINF b)) (Sig a)) t
        = (case call a t of Inl e \<Rightarrow> Inl e | Inr u \<Rightarrow> py_truediv b u))"
  by (simp add: wrap_value Const_leaf_active two_sided_Inr_left)

theorem reflected_literal_left_witness:
  "py_lt (PyInt 0) PINF \<and> to_float (PyInt 0) \<noteq> Inl OverflowError \<and>
   rsub (Const NINF PINF (PyInt 2)) (Num (PyInt 5))
     = Inr (DifferenceOfSignals (Sig (Const NINF PINF (PyInt 5))) (Sig (Const NINF PINF (PyInt 2)))) \<and>
   call (DifferenceOfSignals (Sig (Const NINF PINF (PyInt 5))) (Sig (Const NINF PINF (PyInt 2))))
     (PyInt 0) = Inr (PyInt 3) \<and>
   call (DivisionOfSignals (Sig (Const NINF PINF (PyInt 5))) (Sig (Const NINF PINF (PyInt 2))))
     (PyInt 0) = Inr (PyFloat (Fin (5 / 2)))"
proof -
  have h: "py_lt (PyInt 0) PINF \<and> to_float (PyInt 0) \<noteq> Inl OverflowError"
    by (simp add: py_lt_def PINF_def float_limit_def)
  then have a: "call (Const NINF PINF (PyInt 2)) (PyInt 0) = Inr (PyInt 2)"
    by (simp add: Const_leaf_active)
  have s: "py_sub (PyInt 5) (PyInt 2) = Inr (PyInt 3)"
    "py_truediv (PyInt 5) (PyInt 2) = Inr (PyFloat (Fin (5 / 2)))"
    by (simp_all add: py_sub_def py_truediv_def float_limit_def)
  from h a s reflected_literal_left [of "Const NINF PINF (PyInt 2)" "PyInt 5" "PyInt 0"]
  show ?thesis by (simp add: two_sided_def)
qed

text \<open>
  C5 as stated fails at \<open>t = +inf\<close>, where the leaf of \<open>5\<close> is outside its half-open
  window: with \<open>a = Const(value=1)\<close>, \<open>(5 - a)(+inf)\<close> is \<open>0.0\<close> and \<open>5 - a(+inf)\<close> is
  \<open>5.0\<close>.
\<close>

theorem reflected_literal_left_counterexample:
  "rsub (Const NINF PINF (PyInt 1)) (Num (PyInt 5))
     = Inr (DifferenceOfSignals (Sig (Const NINF PINF (PyInt 5))) (Sig (Const NINF PINF (PyInt 1)))) \<and>
   call (DifferenceOfSignals (Sig (Const NINF PINF (PyInt 5))) (Sig (Const NINF PINF (PyInt 1))))
     PINF = Inr (PyFloat (Fin 0)) \<and>
   call (Const NINF PINF (PyInt 1)) PINF = Inr (PyFloat (Fin 0)) \<and>
   py_sub (PyInt 5) (PyFloat (Fin 0)) = Inr (PyFloat (Fin 5)) \<and>
   \<not> py_eq (PyFloat (Fin 0)) (PyFloat (Fin 5))"
  by (simp add: wrap_value Signal_call_def two_sided_def py_le_def py_lt_def py_eq_def
      py_sub_def float_binop_def float_sub_def NINF_def PINF_def float_limit_def)

text \<open>
  C6, as the code has it. Evaluating a quotient node at a time where both operands
  evaluate to numbers and the denominator is zero raises: \<^verbatim>\<open>ZeroDivisionError\<close>, or
  \<^verbatim>\<open>OverflowError\<close> when the denominator is a float and the numerator an \<^verbatim>\<open>int\<close> too
  large for a float. It returns no infinity and no not-a-number.
\<close>

theorem quotient_zero_raises:
  "call_obj l t = Inr n \<Longrightarrow> call_obj r t = Inr d \<Longrightarrow> exact d = Fin 0 \<Longrightarrow>
     call (DivisionOfSignals l r) t =
       (if as_int d = None \<and> to_float n = Inl OverflowError then Inl OverflowError
        else Inl ZeroDivisionError)"
  by (simp add: two_sided_def py_truediv_zero)

theorem quotient_zero_raises_witness:
  "call_obj (Sig (Const NINF PINF (PyFloat (Fin 1)))) (PyInt 0) = Inr (PyFloat (Fin 1)) \<and>
   call_obj (Sig (Const NINF PINF (PyFloat (Fin 0)))) (PyInt 0) = Inr (PyFloat (Fin 0)) \<and>
   exact (PyFloat (Fin 0)) = Fin 0 \<and>
   call (DivisionOfSignals (Sig (Const NINF PINF (PyFloat (Fin 1))))
                           (Sig (Const NINF PINF (PyFloat (Fin 0))))) (PyInt 0)
     = Inl ZeroDivisionError"
proof -
  have t: "py_lt (PyInt 0) PINF" "to_float (PyInt 0) \<noteq> Inl OverflowError"
    by (simp_all add: py_lt_def PINF_def float_limit_def)
  have l: "call_obj (Sig (Const NINF PINF (PyFloat (Fin 1)))) (PyInt 0) = Inr (PyFloat (Fin 1))"
    and r: "call_obj (Sig (Const NINF PINF (PyFloat (Fin 0)))) (PyInt 0) = Inr (PyFloat (Fin 0))"
    using t by (simp_all add: Const_leaf_active)
  have z: "exact (PyFloat (Fin 0)) = Fin 0" by simp
  from quotient_zero_raises [OF l r z] l r z show ?thesis by simp
qed

text \<open>
  C6 as stated fails: \<open>(Const(value=1) / 0)(0)\<close> and the quotient of the leaves of
  \<open>1.0\<close> and \<open>0.0\<close> at \<open>0\<close> raise \<^verbatim>\<open>ZeroDivisionError\<close>.
\<close>

theorem quotient_zero_counterexample:
  "truediv (Const NINF PINF (PyInt 1)) (Num (PyInt 0))
     = Inr (DivisionOfSignals (Sig (Const NINF PINF (PyInt 1))) (Sig (Const NINF PINF (PyInt 0)))) \<and>
   call (Const NINF PINF (PyInt 0)) (PyInt 0) = Inr (PyInt 0) \<and>
   call (DivisionOfSignals (Sig (Const NINF PINF (PyInt 1))) (Sig (Const NINF PINF (PyInt 0))))
     (PyInt 0) = Inl ZeroDivisionError \<and>
   call (DivisionOfSignals (Sig (Const NINF PINF (PyFloat (Fin 1))))
                           (Sig (Const NINF PINF (PyFloat (Fin 0))))) (PyInt 0)
     = Inl ZeroDivisionError"
proof -
  have t: "py_lt (PyInt 0) PINF" "to_float (PyInt 0) \<noteq> Inl OverflowError"
    by (simp_all add: py_lt_def PINF_def float_limit_def)
  then show ?thesis
    by (simp add: wrap_value Const_leaf_active two_sided_def py_truediv_def)
qed



text \<open>
  C8, as the code has it. \<^verbatim>\<open>eval_on\<close> returns exactly when every single evaluation
  returns, and then an array of the length and order of the timestamps whose element
  \<open>i\<close> is the evaluation at timestamp \<open>i\<close> stored in the element type of the array. The
  element type is fixed by all the results together: \<^verbatim>\<open>float64\<close> as soon as one result
  is a float (and every \<^verbatim>\<open>int\<close> result fits 64 bits), \<^verbatim>\<open>int64\<close> when every result is an
  \<^verbatim>\<open>int\<close> that fits. The element has the value of the single evaluation unless the
  type is \<^verbatim>\<open>float64\<close> and the evaluation an \<^verbatim>\<open>int\<close> of magnitude above \<open>2 ^ 53\<close>, which
  is rounded to a float.
\<close>

theorem eval_on_pointwise:
  "((\<exists>A. eval_on s ts = Inr A) \<longleftrightarrow> (\<forall>t \<in> set ts. \<exists>v. call s t = Inr v)) \<and>
   (eval_on s ts = Inr A \<longrightarrow>
      length (items A) = length ts \<and>
      (\<forall>i<length ts. \<exists>v. call s (ts ! i) = Inr v \<and> items A ! i = cast (dtype A) v \<and>
         (dtype A \<noteq> NpFloat64 \<or> as_int v = None \<longrightarrow> exact (items A ! i) = exact v) \<and>
         (\<forall>n. dtype A = NpFloat64 \<and> as_int v = Some n \<longrightarrow>
              exact (items A ! i) = Fin (int_to_float64 n) \<and>
              (\<bar>n\<bar> \<le> 2 ^ 53 \<longrightarrow> exact (items A ! i) = exact v))) \<and>
      ((\<exists>t \<in> set ts. \<exists>f. call s t = Inr (PyFloat f)) \<and>
       (\<forall>t \<in> set ts. \<forall>n. call s t = Inr (PyInt n) \<longrightarrow> - (2 ^ 63) \<le> n \<and> n < 2 ^ 64) \<longrightarrow>
         dtype A = NpFloat64) \<and>
      (ts \<noteq> [] \<and>
       (\<forall>t \<in> set ts. \<exists>n. call s t = Inr (PyInt n) \<and> - (2 ^ 63) \<le> n \<and> n < 2 ^ 63) \<longrightarrow>
         dtype A = NpInt64 \<and> map Inr (items A) = map (call s) ts))"
proof (intro conjI impI)
  show "(\<exists>A. eval_on s ts = Inr A) \<longleftrightarrow> (\<forall>t \<in> set ts. \<exists>v. call s t = Inr v)"
    by (rule eval_on_returns_iff)
next
  assume A: "eval_on s ts = Inr A"
  then show "length (items A) = length ts"
    by (rule eval_on_Inr(1))
  from A obtain rs where rs: "map (call s) ts = map Inr rs" and arr: "A = np_array rs"
    using eval_on_array by blast
  have res: "\<exists>t \<in> set ts. call s t = Inr r" if "r \<in> set rs" for r
  proof -
    from that have "Inr r \<in> set (map (call s) ts)" by (simp add: rs)
    then show ?thesis by auto
  qed
  show "\<forall>i<length ts. \<exists>v. call s (ts ! i) = Inr v \<and> items A ! i = cast (dtype A) v \<and>
         (dtype A \<noteq> NpFloat64 \<or> as_int v = None \<longrightarrow> exact (items A ! i) = exact v) \<and>
         (\<forall>n. dtype A = NpFloat64 \<and> as_int v = Some n \<longrightarrow>
              exact (items A ! i) = Fin (int_to_float64 n) \<and>
              (\<bar>n\<bar> \<le> 2 ^ 53 \<longrightarrow> exact (items A ! i) = exact v))"
  proof (intro allI impI)
    fix i assume "i < length ts"
    from eval_on_Inr(2) [OF A this] obtain v
      where v: "call s (ts ! i) = Inr v" and item: "items A ! i = cast (dtype A) v"
      by blast
    have "exact (cast (dtype A) v) = exact v" if "dtype A \<noteq> NpFloat64 \<or> as_int v = None"
      using that by (auto intro: cast_keeps_value)
    moreover have "exact (cast (dtype A) v) = Fin (int_to_float64 n)"
      if "dtype A = NpFloat64 \<and> as_int v = Some n" for n
      using that by (simp add: cast_float64_int)
    moreover have "exact (cast (dtype A) v) = exact v"
      if "as_int v = Some n" "\<bar>n\<bar> \<le> 2 ^ 53" for n
      using that by (auto intro: cast_keeps_value)
    ultimately show "\<exists>v. call s (ts ! i) = Inr v \<and> items A ! i = cast (dtype A) v \<and>
         (dtype A \<noteq> NpFloat64 \<or> as_int v = None \<longrightarrow> exact (items A ! i) = exact v) \<and>
         (\<forall>n. dtype A = NpFloat64 \<and> as_int v = Some n \<longrightarrow>
              exact (items A ! i) = Fin (int_to_float64 n) \<and>
              (\<bar>n\<bar> \<le> 2 ^ 53 \<longrightarrow> exact (items A ! i) = exact v))"
      using v item by auto
  qed
  show "dtype A = NpFloat64"
    if h: "(\<exists>t \<in> set ts. \<exists>f. call s t = Inr (PyFloat f)) \<and>
       (\<forall>t \<in> set ts. \<forall>n. call s t = Inr (PyInt n) \<longrightarrow> - (2 ^ 63) \<le> n \<and> n < 2 ^ 64)"
  proof -
    from h obtain t f where t: "t \<in> set ts" and f: "call s t = Inr (PyFloat f)" by blast
    from t have "call s t \<in> set (map (call s) ts)" by simp
    then have "call s t \<in> set (map Inr rs)" by (simp only: rs)
    with f have "PyFloat f \<in> set rs" by auto
    then have float: "\<exists>x \<in> set rs. discover x = NpFloat64"
      using discover_Float64 by blast
    have "discover x \<noteq> NpObject" if "x \<in> set rs" for x
    proof -
      from res [OF that] obtain u where "u \<in> set ts" "call s u = Inr x" by blast
      with h have "\<forall>n. x = PyInt n \<longrightarrow> - (2 ^ 63) \<le> n \<and> n < 2 ^ 64" by blast
      then show ?thesis by (simp only: discover_not_Object)
    qed
    with float have "result_dtype rs = NpFloat64"
      by (intro result_dtype_Float64) blast+
    then show ?thesis
      by (simp add: arr np_array_def)
  qed
  show "dtype A = NpInt64" and "map Inr (items A) = map (call s) ts"
    if h: "ts \<noteq> [] \<and>
       (\<forall>t \<in> set ts. \<exists>n. call s t = Inr (PyInt n) \<and> - (2 ^ 63) \<le> n \<and> n < 2 ^ 63)"
  proof -
    from h have "map (call s) ts \<noteq> []" by simp
    then have nonempty: "rs \<noteq> []" by (simp add: rs)
    have all: "discover x = NpInt64" if "x \<in> set rs" for x
    proof -
      from res [OF that] obtain u where u: "u \<in> set ts" "call s u = Inr x" by blast
      with h obtain n where "call s u = Inr (PyInt n)" "- (2 ^ 63) \<le> n" "n < 2 ^ 63" by blast
      with u have "x = PyInt n" by simp
      with \<open>- (2 ^ 63) \<le> n\<close> \<open>n < 2 ^ 63\<close> show ?thesis
        by (simp only: discover_Int64_int)
    qed
    with nonempty have d: "result_dtype rs = NpInt64"
      by (intro result_dtype_Int64) blast+
    then show "dtype A = NpInt64"
      by (simp add: arr np_array_def)
    from all have "map (cast NpInt64) rs = rs"
      by (simp add: map_idI discover_Int64_cast)
    then show "map Inr (items A) = map (call s) ts"
      by (simp add: arr np_array_def d rs)
  qed
qed

theorem eval_on_pointwise_witness:
  "eval_on (Const (PyInt 2) (PyInt 5) (PyInt 5)) [PyInt 0, PyInt 2, PyInt 4]
     = Inr (NdArray NpFloat64 [PyFloat (Fin 0), PyFloat (Fin 5), PyFloat (Fin 5)]) \<and>
   call (Const (PyInt 2) (PyInt 5) (PyInt 5)) (PyInt 0) = Inr (PyFloat (Fin 0)) \<and>
   call (Const (PyInt 2) (PyInt 5) (PyInt 5)) (PyInt 2) = Inr (PyInt 5) \<and>
   call (Const (PyInt 2) (PyInt 5) (PyInt 5)) (PyInt 4) = Inr (PyInt 5) \<and>
   exact (PyFloat (Fin 5)) = exact (PyInt 5) \<and>
   eval_on (Const NINF PINF (PyInt 7)) [PyInt 0, PyInt 1]
     = Inr (NdArray NpInt64 [PyInt 7, PyInt 7]) \<and>
   call (Const NINF PINF (PyInt 7)) (PyInt 0) = Inr (PyInt 7) \<and>
   call (Const NINF PINF (PyInt 7)) (PyInt 1) = Inr (PyInt 7)"
proof -
  let ?s = "Const (PyInt 2) (PyInt 5) (PyInt 5)"
  let ?ts = "[PyInt 0, PyInt 2, PyInt 4]"
  let ?A = "NdArray NpFloat64 [PyFloat (Fin 0), PyFloat (Fin 5), PyFloat (Fin 5)]"
  let ?c = "Const NINF PINF (PyInt 7)"
  let ?us = "[PyInt 0, PyInt 1]"
  have calls: "call ?s (PyInt 0) = Inr (PyFloat (Fin 0))" "call ?s (PyInt 2) = Inr (PyInt 5)"
    "call ?s (PyInt 4) = Inr (PyInt 5)"
    by (simp_all add: Signal_call_def py_le_def py_lt_def py_sub_def)
  have small: "int_to_float64 5 = 5"
    by (rule int_to_float64_exact [of 5, simplified])
  have h: "eval_on ?s ?ts = Inr ?A"
    using calls by (simp add: eval_on_def np_array_def result_dtype_def small)
  from eval_on_pointwise [of ?s ?ts ?A] h
  have nth: "\<And>i. i < length ?ts \<Longrightarrow> \<exists>v. call ?s (?ts ! i) = Inr v \<and>
      (\<forall>n. dtype ?A = NpFloat64 \<and> as_int v = Some n \<longrightarrow>
         (\<bar>n\<bar> \<le> 2 ^ 53 \<longrightarrow> exact (items ?A ! i) = exact v))"
    by blast
  from nth [of 1] calls have same: "exact (PyFloat (Fin 5)) = exact (PyInt 5)"
    by simp
  have t: "py_lt (PyInt n) PINF" for n
    by (simp add: py_lt_def PINF_def)
  have leaf: "call ?c (PyInt 0) = Inr (PyInt 7)" "call ?c (PyInt 1) = Inr (PyInt 7)"
    using t float_limit_large by (simp_all add: Const_leaf_active)
  then have ints: "?us \<noteq> [] \<and>
      (\<forall>t \<in> set ?us. \<exists>n. call ?c t = Inr (PyInt n) \<and> - (2 ^ 63) \<le> n \<and> n < 2 ^ 63)"
    by simp
  from leaf have "\<exists>A. eval_on ?c ?us = Inr A"
    by (simp add: eval_on_def)
  then obtain B where B: "eval_on ?c ?us = Inr B" by blast
  from eval_on_pointwise [of ?c ?us B] B ints
  have "dtype B = NpInt64" "map Inr (items B) = map (call ?c) ?us"
    by blast+
  with leaf have "B = NdArray NpInt64 [PyInt 7, PyInt 7]"
    by (cases B) auto
  with B h calls same leaf show ?thesis by simp
qed

text \<open>
  C8 as stated fails: the leaf of the \<^verbatim>\<open>int\<close> \<open>2 ** 53 + 1\<close> on the window \<open>[0, 5)\<close>,
  evaluated on \<open>[-1, 1]\<close>, gives the \<^verbatim>\<open>float64\<close> array of \<open>0.0\<close> and \<open>2 ** 53\<close>, whose
  second element is not the single evaluation at \<open>1\<close>; evaluated on \<open>[1]\<close> alone it
  gives that \<^verbatim>\<open>int\<close>, so the element depends on the other timestamp.
\<close>

theorem eval_on_pointwise_counterexample:
  "Const_init [PyInt 0, PyInt 5, PyInt 9007199254740993] []
     = Inr (Const (PyInt 0) (PyInt 5) (PyInt 9007199254740993)) \<and>
   eval_on (Const (PyInt 0) (PyInt 5) (PyInt 9007199254740993)) [PyInt (- 1), PyInt 1]
     = Inr (NdArray NpFloat64 [PyFloat (Fin 0), PyFloat (Fin 9007199254740992)]) \<and>
   call (Const (PyInt 0) (PyInt 5) (PyInt 9007199254740993)) (PyInt 1)
     = Inr (PyInt 9007199254740993) \<and>
   \<not> py_eq (PyFloat (Fin 9007199254740992)) (PyInt 9007199254740993) \<and>
   eval_on (Const (PyInt 0) (PyInt 5) (PyInt 9007199254740993)) [PyInt 1]
     = Inr (NdArray NpInt64 [PyInt 9007199254740993])"
  by (simp add: Const_positional3 eval_on_def np_array_def result_dtype_def Signal_call_def
      py_le_def py_lt_def py_sub_def py_eq_def int_to_float64_def shift53.simps
      round_half_even_def)

text \<open>
  C9. A reversed window is not rejected: with \<open>t_start > t_end\<close> the constructor of the
  constant leaf succeeds, and a windowed node with that window returns \<open>0\<close> at every
  time.
\<close>

theorem reversed_window_zero:
  "py_lt t_end t_start \<Longrightarrow>
     Const_init [t_start, t_end, v] [] = Inr (Const t_start t_end v) \<and>
     call (Const t_start t_end v) t = Inr (PyFloat (Fin 0)) \<and>
     call (Signal cls t_start t_end local) t = Inr (PyFloat (Fin 0))"
proof -
  assume "py_lt t_end t_start"
  then have "\<not> (py_le t_start t \<and> py_lt t t_end)"
    using float_window_empty [of "exact t_end" "exact t_start" "exact t"]
    by (simp add: py_le_def py_lt_def)
  then have "Signal_call t_start t_end f t = Inr (PyFloat (Fin 0))" for f
    unfolding Signal_call_def by (rule if_not_P)
  then show ?thesis
    by (simp add: Const_positional3)
qed

theorem reversed_window_zero_witness:
  "py_lt (PyInt 2) (PyInt 5) \<and>
   Const_init [PyInt 5, PyInt 2, PyInt 7] [] = Inr (Const (PyInt 5) (PyInt 2) (PyInt 7)) \<and>
   call (Const (PyInt 5) (PyInt 2) (PyInt 7)) (PyInt 3) = Inr (PyFloat (Fin 0)) \<and>
   call (Signal ''Ramp'' (PyInt 5) (PyInt 2) Inr) (PyInt 3) = Inr (PyFloat (Fin 0))"
proof -
  have h: "py_lt (PyInt 2) (PyInt 5)" by (simp add: py_lt_def)
  show ?thesis
    using h reversed_window_zero [OF h, of "PyInt 7" "PyInt 3" "''Ramp''" Inr] by simp
qed

text \<open>
  C10. A \<^verbatim>\<open>bool\<close> operand is accepted by every operator: the construction does not
  raise, and the operand on the side of the literal is the constant leaf carrying the
  \<^verbatim>\<open>bool\<close>, which equals the \<^verbatim>\<open>int\<close> 1 or 0 and acts as it under each arithmetic
  operator.
\<close>

theorem bool_operand_accepted:
  "add s (Num (PyBool b)) = Inr (SumOfSignals (Sig s) (Sig (Const NINF PINF (PyBool b)))) \<and>
   sub s (Num (PyBool b)) = Inr (DifferenceOfSignals (Sig s) (Sig (Const NINF PINF (PyBool b)))) \<and>
   mul s (Num (PyBool b)) = Inr (ProductOfSignals (Sig s) (Sig (Const NINF PINF (PyBool b)))) \<and>
   truediv s (Num (PyBool b)) = Inr (DivisionOfSignals (Sig s) (Sig (Const NINF PINF (PyBool b)))) \<and>
   radd s (Num (PyBool b)) = Inr (SumOfSignals (Sig s) (Sig (Const NINF PINF (PyBool b)))) \<and>
   rsub s (Num (PyBool b)) = Inr (DifferenceOfSignals (Sig (Const NINF PINF (PyBool b))) (Sig s)) \<and>
   rmul s (Num (PyBool b)) = Inr (ProductOfSignals (Sig s) (Sig (Const NINF PINF (PyBool b)))) \<and>
   rtruediv s (Num (PyBool b)) = Inr (DivisionOfSignals (Sig (Const NINF PINF (PyBool b))) (Sig s)) \<and>
   py_eq (PyBool b) (PyInt (if b then 1 else 0)) \<and>
   py_add u (PyBool b) = py_add u (PyInt (if b then 1 else 0)) \<and>
   py_sub u (PyBool b) = py_sub u (PyInt (if b then 1 else 0)) \<and>
   py_mul u (PyBool b) = py_mul u (PyInt (if b then 1 else 0)) \<and>
   py_truediv u (PyBool b) = py_truediv u (PyInt (if b then 1 else 0))"
  using bool_as_int_ops [of u b]
  by (simp add: wrap_value py_eq_def radd_def rmul_def)

end
